theory Spec2Isabelle
  imports Main
begin

section \<open>Data model\<close>

text \<open>
  Everything that can be thrown by the module. The SteamID constructor of the external
  \<open>steamid\<close> package throws on a string it cannot parse (the error carries that
  string); \<open>axios.get\<close> rejects on a transport failure; the three remaining errors are
  thrown by the module itself.
\<close>

datatype error =
    TooManyTargets
  | InvalidIdentifierFormat string
  | NotAValidSteamID
  | CouldNotReach
  | TransportError

text \<open>
  What \<open>await axios.get(url)\<close> can produce: a rejection, a value that is falsy (the
  \<open>else\<close> branch of \<open>if (response)\<close>), or a response object of the declared type.
\<close>

datatype 'r reply = Rejected | Falsy | Reply 'r

datatype CommunityVisibility = VISIBLE | NOT_VISIBLE

datatype PersonaState =
  OFFLINE | ONLINE | BUSY | AWAY | SNOOZE | LOOKING_TO_TRADE | LOOKING_TO_PLAY

record PlayerSummary =
  ps_steamid :: string
  communityvisibilitystate :: CommunityVisibility
  profilestate :: bool
  personaname :: string
  lastlogoff :: int
  commentpermission :: bool
  profileurl :: string
  avatar :: string
  avatarmedium :: string
  avatarfull :: string
  personastate :: PersonaState
  realname :: "string option"
  primaryclanid :: "string option"
  timecreated :: "int option"
  loccountrycode :: "string option"
  locstatecode :: "string option"
  gameid :: "string option"
  gameserverip :: "string option"
  gameserversteamid :: "string option"
  gameextrainfo :: "string option"

record PlayerBans =
  SteamId :: string
  CommunityBanned :: bool
  VACBanned :: bool
  NumberOfVACBans :: int
  DaysSinceLastBan :: int
  NumberOfGameBans :: int
  EconomyBan :: string

text \<open>\<open>response.data.response\<close> of the two typed responses, and the object read by GetPlayerBans.\<close>

record PlayerSummaryResponse =
  players :: "PlayerSummary list option"

record PlayerBansResponse =
  ban_players :: "PlayerBans list option"

record VanityURLResponse =
  success :: int
  steamid :: "string option"
  message :: "string option"

text \<open>\<open>type SteamIDResolvable = string | SteamID\<close>\<close>

datatype 'sid SteamIDResolvable = Str string | Sid 'sid

text \<open>
  The state of the process as far as the module touches it: the module-level variable
  \<open>apiKey\<close>, and the URLs handed to \<open>axios.get\<close> so far, oldest first.
\<close>

record world =
  apiKey :: string
  requests :: "string list"

text \<open>\<open>let apiKey: string = ''\<close>\<close>

definition initial_world :: world where
  "initial_world = \<lparr>apiKey = [], requests = []\<rparr>"

definition setApiKey :: "string \<Rightarrow> world \<Rightarrow> world" where
  "setApiKey key w = w\<lparr>apiKey := key\<rparr>"

text \<open>
  \<open>axios.get\<close>: the remote service is a function from the requested URL to a reply; each
  call is recorded in the world.
\<close>

definition axios_get :: "(string \<Rightarrow> 'r reply) \<Rightarrow> string \<Rightarrow> world \<Rightarrow> 'r reply \<times> world" where
  "axios_get net url w = (net url, w\<lparr>requests := requests w @ [url]\<rparr>)"


section \<open>resolveURL\<close>

text \<open>
  The two regular expressions are \<open>http[s]{0,1}\<close> followed by a literal; neither is
  anchored. \<open>startsWith\<close> is the literal test, \<open>matchHere\<close> the length of the match of
  \<open>/http[s]{0,1}LIT/\<close> that begins at the first character of the input (the quantifier is
  greedy, so the \<open>s\<close> is tried first).
\<close>

definition profilesLit :: string where
  "profilesLit = ''://steamcommunity.com/profiles/''"

definition customLit :: string where
  "customLit = ''://steamcommunity.com/id/''"

definition startsWith :: "string \<Rightarrow> string \<Rightarrow> bool" where
  "startsWith p s = (take (length p) s = p)"

definition matchHere :: "string \<Rightarrow> string \<Rightarrow> nat option" where
  "matchHere lit s =
     (if startsWith (''https'' @ lit) s then Some (5 + length lit)
      else if startsWith (''http'' @ lit) s then Some (4 + length lit)
      else None)"

text \<open>\<open>url.match(re)\<close> as a truth value: is there a match starting at some position.\<close>

fun matchRe :: "string \<Rightarrow> string \<Rightarrow> bool" where
  "matchRe lit [] = False"
| "matchRe lit (c # cs) = (matchHere lit (c # cs) \<noteq> None \<or> matchRe lit cs)"

text \<open>\<open>url.replace(re, '')\<close> for a regular expression without the global flag: the leftmost match is cut out.\<close>

fun replaceRe :: "string \<Rightarrow> string \<Rightarrow> string" where
  "replaceRe lit [] = []"
| "replaceRe lit (c # cs) =
     (case matchHere lit (c # cs) of
        Some n \<Rightarrow> drop n (c # cs)
      | None \<Rightarrow> c # replaceRe lit cs)"

text \<open>\<open>url.replace('/', '')\<close> with a string pattern: the first \<open>/\<close> is cut out.\<close>

fun replaceSlash :: "string \<Rightarrow> string" where
  "replaceSlash [] = []"
| "replaceSlash (c # cs) = (if c = CHR ''/'' then cs else c # replaceSlash cs)"

definition resolveURL :: "string \<Rightarrow> string" where
  "resolveURL url =
     (if matchRe profilesLit url \<or> matchRe customLit url
      then replaceSlash (replaceRe customLit (replaceRe profilesLit url))
      else url)"


subsection \<open>What the replacements are meant to compute\<close>

text \<open>The four strings that the two regular expressions can match.\<close>

definition recognizedPrefixes :: "string list" where
  "recognizedPrefixes =
     [''http'' @ profilesLit, ''https'' @ profilesLit, ''http'' @ customLit, ''https'' @ customLit]"

text \<open>
  \<open>firstMatchCut lit x y\<close>: \<open>y\<close> is \<open>x\<close> with the leftmost occurrence of
  \<open>/http[s]{0,1}lit/\<close> cut out, or \<open>x\<close> itself when there is no occurrence. This is
  stated on the strings alone, without the matching functions.
\<close>

definition firstMatchCut :: "string \<Rightarrow> string \<Rightarrow> string \<Rightarrow> bool" where
  "firstMatchCut lit x y =
     ((\<exists>a m b. x = a @ m @ b \<and> (m = ''http'' @ lit \<or> m = ''https'' @ lit) \<and> y = a @ b
          \<and> (\<forall>a' m' b'. x = a' @ m' @ b' \<and> (m' = ''http'' @ lit \<or> m' = ''https'' @ lit)
                \<longrightarrow> length a \<le> length a'))
      \<or> (y = x \<and> \<not> (\<exists>a m b. x = a @ m @ b \<and> (m = ''http'' @ lit \<or> m = ''https'' @ lit))))"

text \<open>\<open>firstSlashCut z y\<close>: \<open>y\<close> is \<open>z\<close> without its first \<open>/\<close>, or \<open>z\<close> itself when it has none.\<close>

definition firstSlashCut :: "string \<Rightarrow> string \<Rightarrow> bool" where
  "firstSlashCut z y =
     ((\<exists>u v. z = u @ ''/'' @ v \<and> CHR ''/'' \<notin> set u \<and> y = u @ v)
      \<or> (y = z \<and> CHR ''/'' \<notin> set z))"


section \<open>The SteamID class\<close>

text \<open>
  The class comes from the external \<open>steamid\<close> package, so its two operations used by
  the module are parameters of every function below: \<open>new_SteamID s\<close> is
  \<open>new SteamID(s)\<close>, with \<open>None\<close> when the constructor throws, and
  \<open>getSteamID64 sid\<close> renders an identifier as its 64-bit decimal string.
\<close>

definition isValidSteamID :: "(string \<Rightarrow> 'sid option) \<Rightarrow> string \<Rightarrow> bool" where
  "isValidSteamID new_SteamID steamIDToCheck =
     (case new_SteamID steamIDToCheck of None \<Rightarrow> False | Some _ \<Rightarrow> True)"

definition getSteamID :: "(string \<Rightarrow> 'sid option) \<Rightarrow> string \<Rightarrow> error + 'sid" where
  "getSteamID new_SteamID url =
     (case new_SteamID (resolveURL url) of
        None \<Rightarrow> Inl (InvalidIdentifierFormat (resolveURL url))
      | Some steamID \<Rightarrow> Inr steamID)"

text \<open>
  A concrete class for running the scenarios: the identifier is kept as its decimal
  string, and the constructor accepts exactly the non-empty strings of decimal digits.
\<close>

definition decimal_SteamID :: "string \<Rightarrow> string option" where
  "decimal_SteamID s =
     (if s \<noteq> [] \<and> list_all (\<lambda>c. c \<in> set ''0123456789'') s then Some s else None)"

definition decimal_getSteamID64 :: "string \<Rightarrow> string" where
  "decimal_getSteamID64 sid = sid"

text \<open>Two remote services for the scenarios: one answers every URL with the same body, one rejects every request.\<close>

definition answering :: "'r \<Rightarrow> string \<Rightarrow> 'r reply" where
  "answering r url = Reply r"

definition unreachable :: "string \<Rightarrow> 'r reply" where
  "unreachable url = Rejected"


section \<open>resolveVanityUrl and getSteamIDAsync\<close>

definition vanityRequestURL :: "string \<Rightarrow> string \<Rightarrow> string" where
  "vanityRequestURL key vanity =
     ''http://api.steampowered.com/ISteamUser/ResolveVanityURL/v0001/?key='' @ key
       @ ''&vanityurl='' @ vanity"

text \<open>
  \<open>if (steamID)\<close> is JavaScript truthiness on \<open>string | undefined\<close>: an absent field
  and the empty string both take the \<open>else\<close> branch.
\<close>

definition resolveVanityUrl ::
  "(string \<Rightarrow> 'sid option) \<Rightarrow> (string \<Rightarrow> VanityURLResponse reply) \<Rightarrow> string \<Rightarrow> world
     \<Rightarrow> (error + 'sid) \<times> world" where
  "resolveVanityUrl new_SteamID net vanity w =
     (let requestURL = vanityRequestURL (apiKey w) vanity;
          (response, w') = axios_get net requestURL w
      in case response of
           Rejected \<Rightarrow> (Inl TransportError, w')
         | Falsy \<Rightarrow> (Inl CouldNotReach, w')
         | Reply r \<Rightarrow>
             (case steamid r of
                None \<Rightarrow> (Inl NotAValidSteamID, w')
              | Some steamID \<Rightarrow>
                  if steamID = [] then (Inl NotAValidSteamID, w')
                  else (case new_SteamID steamID of
                          None \<Rightarrow> (Inl (InvalidIdentifierFormat steamID), w')
                        | Some sid \<Rightarrow> (Inr sid, w'))))"

text \<open>The earlier version of the function in \<open>src/index.ts\<close> returns the string itself.\<close>

definition index_resolveVanityUrl ::
  "(string \<Rightarrow> VanityURLResponse reply) \<Rightarrow> string \<Rightarrow> world \<Rightarrow> (error + string) \<times> world" where
  "index_resolveVanityUrl net vanity w =
     (let requestURL = vanityRequestURL (apiKey w) vanity;
          (response, w') = axios_get net requestURL w
      in case response of
           Rejected \<Rightarrow> (Inl TransportError, w')
         | Falsy \<Rightarrow> (Inl CouldNotReach, w')
         | Reply r \<Rightarrow>
             (case steamid r of
                None \<Rightarrow> (Inl NotAValidSteamID, w')
              | Some steamID \<Rightarrow>
                  if steamID = [] then (Inl NotAValidSteamID, w')
                  else (Inr steamID, w')))"

text \<open>
  \<open>resolveVanityUrl(..).then(sid => sid.getSteamID64()).catch(() => steamResolvable)\<close>
  turns every rejection of the lookup into the normalized input string.
\<close>

definition getSteamIDAsync ::
  "(string \<Rightarrow> 'sid option) \<Rightarrow> ('sid \<Rightarrow> string) \<Rightarrow> (string \<Rightarrow> VanityURLResponse reply)
     \<Rightarrow> string \<Rightarrow> world \<Rightarrow> (error + 'sid) \<times> world" where
  "getSteamIDAsync new_SteamID getSteamID64 net steamResolvable w =
     (if isValidSteamID new_SteamID steamResolvable
      then (case new_SteamID steamResolvable of
              None \<Rightarrow> (Inl (InvalidIdentifierFormat steamResolvable), w)
            | Some steamID \<Rightarrow> (Inr steamID, w))
      else
        (let normalized = resolveURL steamResolvable;
             (looked, w') = resolveVanityUrl new_SteamID net normalized w;
             steamResolvable' = (case looked of
                                   Inr sid \<Rightarrow> getSteamID64 sid
                                 | Inl _ \<Rightarrow> normalized)
         in case new_SteamID steamResolvable' of
              None \<Rightarrow> (Inl (InvalidIdentifierFormat steamResolvable'), w')
            | Some steamID \<Rightarrow> (Inr steamID, w')))"


section \<open>The bulk fetch operations\<close>

text \<open>\<open>steamIDs.join(',')\<close>\<close>

fun join_comma :: "string list \<Rightarrow> string" where
  "join_comma [] = []"
| "join_comma [x] = x"
| "join_comma (x # y # ys) = x @ '','' @ join_comma (y # ys)"

text \<open>The conversion loop stops at the first target whose construction throws.\<close>

fun SteamIDResolvablesToSteamID64 ::
  "(string \<Rightarrow> 'sid option) \<Rightarrow> ('sid \<Rightarrow> string) \<Rightarrow> 'sid SteamIDResolvable list
     \<Rightarrow> error + string list" where
  "SteamIDResolvablesToSteamID64 new_SteamID getSteamID64 [] = Inr []"
| "SteamIDResolvablesToSteamID64 new_SteamID getSteamID64 (Sid element # targets) =
     (case SteamIDResolvablesToSteamID64 new_SteamID getSteamID64 targets of
        Inl e \<Rightarrow> Inl e
      | Inr steamIDs \<Rightarrow> Inr (getSteamID64 element # steamIDs))"
| "SteamIDResolvablesToSteamID64 new_SteamID getSteamID64 (Str element # targets) =
     (case new_SteamID element of
        None \<Rightarrow> Inl (InvalidIdentifierFormat element)
      | Some steamID \<Rightarrow>
          (case SteamIDResolvablesToSteamID64 new_SteamID getSteamID64 targets of
             Inl e \<Rightarrow> Inl e
           | Inr steamIDs \<Rightarrow> Inr (getSteamID64 steamID # steamIDs)))"

text \<open>The copy loop \<open>for (index ...) returnArray.push(dataArray[index])\<close>.\<close>

fun push_all :: "'a list \<Rightarrow> 'a list \<Rightarrow> 'a list" where
  "push_all returnArray [] = returnArray"
| "push_all returnArray (d # dataArray) = push_all (returnArray @ [d]) dataArray"

text \<open>\<open>if (dataArray && dataArray.length) { copy }\<close> on an optional array.\<close>

definition collect :: "'a list option \<Rightarrow> 'a list" where
  "collect dataArray =
     (case dataArray of
        None \<Rightarrow> []
      | Some ds \<Rightarrow> if length ds \<noteq> 0 then push_all [] ds else [])"

definition summariesRequestURL :: "string \<Rightarrow> string list \<Rightarrow> string" where
  "summariesRequestURL key steamIDs =
     ''http://api.steampowered.com/ISteamUser/GetPlayerSummaries/v0002/?key='' @ key
       @ ''&steamids='' @ join_comma steamIDs"

definition bansRequestURL :: "string \<Rightarrow> string list \<Rightarrow> string" where
  "bansRequestURL key steamIDs =
     ''http://api.steampowered.com/ISteamUser/GetPlayerBans/v1/?key='' @ key
       @ ''&steamids='' @ join_comma steamIDs"

definition GetPlayerSummaries ::
  "(string \<Rightarrow> 'sid option) \<Rightarrow> ('sid \<Rightarrow> string) \<Rightarrow> (string \<Rightarrow> PlayerSummaryResponse reply)
     \<Rightarrow> 'sid SteamIDResolvable list \<Rightarrow> world \<Rightarrow> (error + PlayerSummary list) \<times> world" where
  "GetPlayerSummaries new_SteamID getSteamID64 net targets w =
     (if length targets > 100 then (Inl TooManyTargets, w)
      else case SteamIDResolvablesToSteamID64 new_SteamID getSteamID64 targets of
             Inl e \<Rightarrow> (Inl e, w)
           | Inr steamIDs \<Rightarrow>
               (let requestURL = summariesRequestURL (apiKey w) steamIDs;
                    (response, w') = axios_get net requestURL w
                in case response of
                     Rejected \<Rightarrow> (Inl TransportError, w')
                   | Falsy \<Rightarrow> (Inr [], w')
                   | Reply r \<Rightarrow> (Inr (collect (players r)), w')))"

text \<open>The deprecated alias.\<close>

definition getPlayerSummaries ::
  "(string \<Rightarrow> 'sid option) \<Rightarrow> ('sid \<Rightarrow> string) \<Rightarrow> (string \<Rightarrow> PlayerSummaryResponse reply)
     \<Rightarrow> 'sid SteamIDResolvable list \<Rightarrow> world \<Rightarrow> (error + PlayerSummary list) \<times> world" where
  "getPlayerSummaries new_SteamID getSteamID64 net targets w =
     GetPlayerSummaries new_SteamID getSteamID64 net targets w"

definition GetPlayerBans ::
  "(string \<Rightarrow> 'sid option) \<Rightarrow> ('sid \<Rightarrow> string) \<Rightarrow> (string \<Rightarrow> PlayerBansResponse reply)
     \<Rightarrow> 'sid SteamIDResolvable list \<Rightarrow> world \<Rightarrow> (error + PlayerBans list) \<times> world" where
  "GetPlayerBans new_SteamID getSteamID64 net targets w =
     (if length targets > 100 then (Inl TooManyTargets, w)
      else case SteamIDResolvablesToSteamID64 new_SteamID getSteamID64 targets of
             Inl e \<Rightarrow> (Inl e, w)
           | Inr steamIDs \<Rightarrow>
               (let requestURL = bansRequestURL (apiKey w) steamIDs;
                    (response, w') = axios_get net requestURL w
                in case response of
                     Rejected \<Rightarrow> (Inl TransportError, w')
                   | Falsy \<Rightarrow> (Inr [], w')
                   | Reply r \<Rightarrow> (Inr (collect (ban_players r)), w')))"

text \<open>
  The earlier \<open>getPlayerSummaries\<close> of \<open>src/index.ts\<close> takes strings and interpolates the
  array into the URL, which joins it with commas.
\<close>

definition index_getPlayerSummaries ::
  "(string \<Rightarrow> PlayerSummaryResponse reply) \<Rightarrow> string list \<Rightarrow> world
     \<Rightarrow> (error + PlayerSummary list) \<times> world" where
  "index_getPlayerSummaries net targets w =
     (if length targets > 100 then (Inl TooManyTargets, w)
      else
        (let requestURL = summariesRequestURL (apiKey w) targets;
             (response, w') = axios_get net requestURL w
         in case response of
              Rejected \<Rightarrow> (Inl TransportError, w')
            | Falsy \<Rightarrow> (Inr [], w')
            | Reply r \<Rightarrow> (Inr (collect (players r)), w')))"


section \<open>Auxiliary facts\<close>

lemma isValidSteamID_iff:
  "isValidSteamID new_SteamID s \<longleftrightarrow> (\<exists>sid. new_SteamID s = Some sid)"
  by (cases "new_SteamID s") (simp_all add: isValidSteamID_def)

lemma getSteamIDAsync_fallback:
  assumes "\<not> isValidSteamID new_SteamID x"
      and "fst (resolveVanityUrl new_SteamID net (resolveURL x) w) = Inl e"
  shows "fst (getSteamIDAsync new_SteamID getSteamID64 net x w)
           = (case new_SteamID (resolveURL x) of
                None \<Rightarrow> Inl (InvalidIdentifierFormat (resolveURL x))
              | Some sid \<Rightarrow> Inr sid)"
proof (cases "resolveVanityUrl new_SteamID net (resolveURL x) w")
  case (Pair looked w')
  with assms(2) have "looked = Inl e" by simp
  with Pair assms(1) show ?thesis
    by (simp add: getSteamIDAsync_def split: option.splits)
qed

lemma getSteamIDAsync_errors:
  "fst (getSteamIDAsync new_SteamID getSteamID64 net x w) = Inl e
     \<Longrightarrow> \<exists>s. e = InvalidIdentifierFormat s"
  by (auto simp: getSteamIDAsync_def Let_def split: prod.splits option.splits if_splits)

lemma decimal_76561197960287930:
  "decimal_SteamID ''76561197960287930'' = Some ''76561197960287930''"
  by (simp add: decimal_SteamID_def)

lemma resolveURL_profile_example:
  "resolveURL ''https://steamcommunity.com/profiles/76561197960287930/'' = ''76561197960287930''"
  by (simp add: resolveURL_def matchHere_def startsWith_def profilesLit_def customLit_def)

lemma decimal_rejects_profile_example:
  "decimal_SteamID ''https://steamcommunity.com/profiles/76561197960287930/'' = None"
  by (simp add: decimal_SteamID_def)

lemma resolveURL_coolname: "resolveURL ''coolname'' = ''coolname''"
  by (simp add: resolveURL_def matchHere_def startsWith_def profilesLit_def customLit_def)

lemma decimal_rejects_coolname: "decimal_SteamID ''coolname'' = None"
  by (simp add: decimal_SteamID_def)


section \<open>The resolver\<close>

text \<open>
  Claim C1. Whenever \<open>isValidSteamID\<close> accepts the input, \<open>getSteamIDAsync\<close> returns the
  identifier constructed from that very string and leaves the world as it found it: no
  URL is added to the request log, whatever the remote service would have answered.
\<close>

theorem getSteamIDAsync_valid_no_network:
  assumes "isValidSteamID new_SteamID x"
  shows "\<exists>sid. new_SteamID x = Some sid
           \<and> getSteamIDAsync new_SteamID getSteamID64 net x w = (Inr sid, w)
           \<and> requests (snd (getSteamIDAsync new_SteamID getSteamID64 net x w)) = requests w"
proof -
  from assms obtain sid where s: "new_SteamID x = Some sid"
    by (auto simp: isValidSteamID_iff)
  with assms have "getSteamIDAsync new_SteamID getSteamID64 net x w = (Inr sid, w)"
    by (simp add: getSteamIDAsync_def)
  with s show ?thesis by simp
qed

text \<open>Scenario A of the specification.\<close>

theorem getSteamIDAsync_valid_no_network_witness:
  "isValidSteamID decimal_SteamID ''76561197960287930''
   \<and> getSteamIDAsync decimal_SteamID decimal_getSteamID64 unreachable ''76561197960287930'' initial_world
       = (Inr ''76561197960287930'', initial_world)
   \<and> requests (snd (getSteamIDAsync decimal_SteamID decimal_getSteamID64 unreachable
                      ''76561197960287930'' initial_world)) = []"
proof -
  have v: "isValidSteamID decimal_SteamID ''76561197960287930''"
    by (simp add: isValidSteamID_def decimal_76561197960287930)
  from getSteamIDAsync_valid_no_network [OF v, of decimal_getSteamID64 unreachable initial_world] v
  show ?thesis by (simp add: decimal_76561197960287930 initial_world_def)
qed

text \<open>
  Claim C2. The errors of the remote lookup (a rejected request, a falsy response, a
  response without identifier) are never the result of \<open>getSteamIDAsync\<close>; and when the
  input is not a valid identifier and the lookup on its normalized form fails in any
  way, the result is that of constructing the identifier from the normalized string,
  so the only error left is the constructor's error on that string.
\<close>

theorem getSteamIDAsync_never_propagates_remote_failure:
  "fst (getSteamIDAsync new_SteamID getSteamID64 net x w)
      \<notin> {Inl TransportError, Inl CouldNotReach, Inl NotAValidSteamID}
   \<and> (\<not> isValidSteamID new_SteamID x
        \<and> fst (resolveVanityUrl new_SteamID net (resolveURL x) w) = Inl e
      \<longrightarrow> fst (getSteamIDAsync new_SteamID getSteamID64 net x w)
            = (case new_SteamID (resolveURL x) of
                 None \<Rightarrow> Inl (InvalidIdentifierFormat (resolveURL x))
               | Some sid \<Rightarrow> Inr sid))"
proof (intro conjI impI)
  show "fst (getSteamIDAsync new_SteamID getSteamID64 net x w)
          \<notin> {Inl TransportError, Inl CouldNotReach, Inl NotAValidSteamID}"
    using getSteamIDAsync_errors [of new_SteamID getSteamID64 net x w] by auto
next
  assume "\<not> isValidSteamID new_SteamID x
            \<and> fst (resolveVanityUrl new_SteamID net (resolveURL x) w) = Inl e"
  then show "fst (getSteamIDAsync new_SteamID getSteamID64 net x w)
               = (case new_SteamID (resolveURL x) of
                    None \<Rightarrow> Inl (InvalidIdentifierFormat (resolveURL x))
                  | Some sid \<Rightarrow> Inr sid)"
    using getSteamIDAsync_fallback by blast
qed

text \<open>A profile URL whose lookup is rejected by the network still resolves, locally.\<close>

theorem getSteamIDAsync_never_propagates_remote_failure_witness:
  "\<not> isValidSteamID decimal_SteamID ''https://steamcommunity.com/profiles/76561197960287930/''
   \<and> fst (resolveVanityUrl decimal_SteamID unreachable
             (resolveURL ''https://steamcommunity.com/profiles/76561197960287930/'') initial_world)
       = Inl TransportError
   \<and> fst (getSteamIDAsync decimal_SteamID decimal_getSteamID64 unreachable
             ''https://steamcommunity.com/profiles/76561197960287930/'' initial_world)
       = Inr ''76561197960287930''"
proof -
  have a: "\<not> isValidSteamID decimal_SteamID ''https://steamcommunity.com/profiles/76561197960287930/''"
    by (simp add: isValidSteamID_def decimal_rejects_profile_example)
  have b: "fst (resolveVanityUrl decimal_SteamID unreachable
             (resolveURL ''https://steamcommunity.com/profiles/76561197960287930/'') initial_world)
       = Inl TransportError"
    by (simp add: resolveVanityUrl_def axios_get_def unreachable_def)
  from getSteamIDAsync_never_propagates_remote_failure
         [of decimal_SteamID decimal_getSteamID64 unreachable
             "''https://steamcommunity.com/profiles/76561197960287930/''" initial_world TransportError]
       a b
  show ?thesis
    by (simp add: resolveURL_profile_example decimal_76561197960287930)
qed

text \<open>
  Claim C4. When the input is not a valid identifier, the remote lookup on its
  normalized form fails (in any way, a response without identifier included) and the
  constructor rejects the normalized form too, \<open>getSteamIDAsync\<close> fails with the
  constructor's error on the normalized string.
\<close>

theorem getSteamIDAsync_double_failure:
  assumes "\<not> isValidSteamID new_SteamID x"
      and "fst (resolveVanityUrl new_SteamID net (resolveURL x) w) = Inl e"
      and "new_SteamID (resolveURL x) = None"
  shows "fst (getSteamIDAsync new_SteamID getSteamID64 net x w)
           = Inl (InvalidIdentifierFormat (resolveURL x))"
  using getSteamIDAsync_fallback [OF assms(1,2)] assms(3) by simp

text \<open>Scenario D of the specification.\<close>

theorem getSteamIDAsync_double_failure_witness:
  "\<not> isValidSteamID decimal_SteamID ''coolname''
   \<and> fst (resolveVanityUrl decimal_SteamID
             (answering \<lparr>success = 42, steamid = None, message = Some ''No match''\<rparr>)
             (resolveURL ''coolname'') initial_world) = Inl NotAValidSteamID
   \<and> decimal_SteamID (resolveURL ''coolname'') = None
   \<and> fst (getSteamIDAsync decimal_SteamID decimal_getSteamID64
             (answering \<lparr>success = 42, steamid = None, message = Some ''No match''\<rparr>)
             ''coolname'' initial_world) = Inl (InvalidIdentifierFormat ''coolname'')"
proof -
  have a: "\<not> isValidSteamID decimal_SteamID ''coolname''"
    by (simp add: isValidSteamID_def decimal_rejects_coolname)
  have b: "fst (resolveVanityUrl decimal_SteamID
             (answering \<lparr>success = 42, steamid = None, message = Some ''No match''\<rparr>)
             (resolveURL ''coolname'') initial_world) = Inl NotAValidSteamID"
    by (simp add: resolveVanityUrl_def axios_get_def answering_def)
  have c: "decimal_SteamID (resolveURL ''coolname'') = None"
    by (simp add: resolveURL_coolname decimal_rejects_coolname)
  from getSteamIDAsync_double_failure [OF a b c, of decimal_getSteamID64] a b c
  show ?thesis by (simp add: resolveURL_coolname)
qed


section \<open>The bulk fetch operations: the limit of 100 targets\<close>

text \<open>
  Claim C5. With more than 100 targets, \<open>GetPlayerSummaries\<close> and \<open>GetPlayerBans\<close> both
  fail with \<open>TooManyTargets\<close> and leave the world untouched (no request is logged); the
  result does not depend on the constructor, so no target has been converted.
\<close>

theorem bulk_fetch_too_many_targets:
  assumes "length targets > 100"
  shows "GetPlayerSummaries new_SteamID getSteamID64 net targets w = (Inl TooManyTargets, w)
       \<and> GetPlayerBans new_SteamID getSteamID64 net' targets w = (Inl TooManyTargets, w)"
  using assms by (simp add: GetPlayerSummaries_def GetPlayerBans_def)

text \<open>Scenario E: 101 targets, none of which the constructor would accept.\<close>

theorem bulk_fetch_too_many_targets_witness:
  "length (replicate 101 (Str ''coolname'' :: string SteamIDResolvable)) > 100
   \<and> GetPlayerSummaries decimal_SteamID decimal_getSteamID64 unreachable
        (replicate 101 (Str ''coolname'')) initial_world = (Inl TooManyTargets, initial_world)
   \<and> GetPlayerBans decimal_SteamID decimal_getSteamID64 unreachable
        (replicate 101 (Str ''coolname'')) initial_world = (Inl TooManyTargets, initial_world)"
proof -
  have l: "length (replicate 101 (Str ''coolname'' :: string SteamIDResolvable)) > 100"
    by simp
  from bulk_fetch_too_many_targets
         [OF l, of decimal_SteamID decimal_getSteamID64 unreachable initial_world unreachable] l
  show ?thesis by simp
qed


section \<open>getSteamID after isValidSteamID\<close>

lemma startsWith_Cons: "startsWith (p # ps) s \<Longrightarrow> \<exists>cs. s = p # cs"
  by (cases s) (simp_all add: startsWith_def)

lemma matchHere_head: "matchHere lit s \<noteq> None \<Longrightarrow> \<exists>cs. s = CHR ''h'' # cs"
  by (auto simp: matchHere_def dest: startsWith_Cons split: if_splits)

lemma matchRe_contains_h: "matchRe lit s \<Longrightarrow> CHR ''h'' \<in> set s"
proof (induction s)
  case Nil
  then show ?case by simp
next
  case (Cons c cs)
  then show ?case using matchHere_head [of lit "c # cs"] by auto
qed


lemma replaceRe_no_match: "\<not> matchRe lit s \<Longrightarrow> replaceRe lit s = s"
  by (induction s) simp_all

lemma resolveURL_no_match:
  "\<not> matchRe profilesLit x \<Longrightarrow> \<not> matchRe customLit x \<Longrightarrow> resolveURL x = x"
  by (simp add: resolveURL_def)

lemma h_not_digit: "CHR ''h'' \<notin> set ''0123456789''"
  by simp

lemma decimal_SteamID_rejects_urls:
  assumes "matchRe lit u" shows "decimal_SteamID u = None"
proof -
  from assms have "CHR ''h'' \<in> set u" by (rule matchRe_contains_h)
  with h_not_digit have "\<not> list_all (\<lambda>c. c \<in> set ''0123456789'') u"
    unfolding list_all_iff by blast
  then show ?thesis by (simp only: decimal_SteamID_def simp_thms if_False)
qed

text \<open>
  Claim C6. The constructor of the \<open>steamid\<close> package is a parameter; what is used of it
  is that it rejects every string in which one of the two profile-URL patterns matches
  (such a string is none of the identifier formats). Then every string accepted by
  \<open>isValidSteamID\<close> is resolved by \<open>getSteamID\<close>, to the identifier the constructor
  builds from it.
\<close>

theorem isValidSteamID_getSteamID:
  assumes "\<forall>u. matchRe profilesLit u \<or> matchRe customLit u \<longrightarrow> new_SteamID u = None"
      and "isValidSteamID new_SteamID x"
  shows "\<exists>sid. new_SteamID x = Some sid \<and> getSteamID new_SteamID x = Inr sid"
proof -
  from assms(2) obtain sid where s: "new_SteamID x = Some sid"
    by (auto simp: isValidSteamID_iff)
  with assms(1) have "\<not> matchRe profilesLit x" "\<not> matchRe customLit x"
    by auto
  then have "resolveURL x = x" by (rule resolveURL_no_match)
  with s show ?thesis by (simp add: getSteamID_def)
qed

text \<open>The decimal class rejects every URL, and accepts the identifier of scenario A.\<close>

theorem isValidSteamID_getSteamID_witness:
  "\<not> (\<exists>u. (matchRe profilesLit u \<or> matchRe customLit u) \<and> decimal_SteamID u \<noteq> None)
   \<and> isValidSteamID decimal_SteamID ''76561197960287930''
   \<and> getSteamID decimal_SteamID ''76561197960287930'' = Inr ''76561197960287930''"
proof -
  have a: "\<forall>u. matchRe profilesLit u \<or> matchRe customLit u \<longrightarrow> decimal_SteamID u = None"
    using decimal_SteamID_rejects_urls by blast
  have b: "isValidSteamID decimal_SteamID ''76561197960287930''"
    by (simp add: isValidSteamID_def decimal_76561197960287930)
  have a': "\<not> (\<exists>u. (matchRe profilesLit u \<or> matchRe customLit u) \<and> decimal_SteamID u \<noteq> None)"
    using a by auto
  from isValidSteamID_getSteamID [OF a b]
  have c: "getSteamID decimal_SteamID ''76561197960287930'' = Inr ''76561197960287930''"
    by (simp add: decimal_76561197960287930)
  show ?thesis by (intro conjI; rule a' b c)
qed


section \<open>The bulk fetch operations: responses without entries\<close>

lemma collect_no_entries: "ds = None \<or> ds = Some [] \<Longrightarrow> collect ds = []"
  by (auto simp: collect_def)

lemma GetPlayerSummaries_no_entries:
  assumes "length targets \<le> 100"
      and "SteamIDResolvablesToSteamID64 new_SteamID getSteamID64 targets = Inr steamIDs"
      and "net (summariesRequestURL (apiKey w) steamIDs) = Reply r"
      and "players r = None \<or> players r = Some []"
  shows "fst (GetPlayerSummaries new_SteamID getSteamID64 net targets w) = Inr []"
  using assms(1-3) collect_no_entries [OF assms(4)]
  by (simp add: GetPlayerSummaries_def axios_get_def)

lemma GetPlayerBans_no_entries:
  assumes "length targets \<le> 100"
      and "SteamIDResolvablesToSteamID64 new_SteamID getSteamID64 targets = Inr steamIDs"
      and "net (bansRequestURL (apiKey w) steamIDs) = Reply r"
      and "ban_players r = None \<or> ban_players r = Some []"
  shows "fst (GetPlayerBans new_SteamID getSteamID64 net targets w) = Inr []"
  using assms(1-3) collect_no_entries [OF assms(4)]
  by (simp add: GetPlayerBans_def axios_get_def)

lemma index_getPlayerSummaries_no_entries:
  assumes "length targets \<le> 100"
      and "net (summariesRequestURL (apiKey w) targets) = Reply r"
      and "players r = None \<or> players r = Some []"
  shows "fst (index_getPlayerSummaries net targets w) = Inr []"
  using assms(1-2) collect_no_entries [OF assms(3)]
  by (simp add: index_getPlayerSummaries_def axios_get_def)

text \<open>
  Claim C7. When the request of a bulk fetch is answered by a response whose \<open>players\<close>
  array is absent or empty, the operation returns the empty array: for
  \<open>GetPlayerSummaries\<close> and its deprecated alias, for \<open>GetPlayerBans\<close>, and for the
  \<open>getPlayerSummaries\<close> of \<open>src/index.ts\<close>.
\<close>

theorem bulk_fetch_no_entries:
  "(length targets \<le> 100
      \<and> SteamIDResolvablesToSteamID64 new_SteamID getSteamID64 targets = Inr steamIDs
      \<and> net (summariesRequestURL (apiKey w) steamIDs) = Reply r
      \<and> (players r = None \<or> players r = Some [])
    \<longrightarrow> fst (GetPlayerSummaries new_SteamID getSteamID64 net targets w) = Inr []
        \<and> fst (getPlayerSummaries new_SteamID getSteamID64 net targets w) = Inr [])
   \<and> (length targets \<le> 100
      \<and> SteamIDResolvablesToSteamID64 new_SteamID getSteamID64 targets = Inr steamIDs
      \<and> net' (bansRequestURL (apiKey w) steamIDs) = Reply r'
      \<and> (ban_players r' = None \<or> ban_players r' = Some [])
    \<longrightarrow> fst (GetPlayerBans new_SteamID getSteamID64 net' targets w) = Inr [])
   \<and> (length strs \<le> 100
      \<and> net (summariesRequestURL (apiKey w) strs) = Reply r
      \<and> (players r = None \<or> players r = Some [])
    \<longrightarrow> fst (index_getPlayerSummaries net strs w) = Inr [])"
proof (intro conjI impI)
  assume h: "length targets \<le> 100
      \<and> SteamIDResolvablesToSteamID64 new_SteamID getSteamID64 targets = Inr steamIDs
      \<and> net (summariesRequestURL (apiKey w) steamIDs) = Reply r
      \<and> (players r = None \<or> players r = Some [])"
  then show "fst (GetPlayerSummaries new_SteamID getSteamID64 net targets w) = Inr []"
    by (intro GetPlayerSummaries_no_entries [where steamIDs = steamIDs and r = r]) simp_all
  then show "fst (getPlayerSummaries new_SteamID getSteamID64 net targets w) = Inr []"
    by (simp add: getPlayerSummaries_def)
next
  assume "length targets \<le> 100
      \<and> SteamIDResolvablesToSteamID64 new_SteamID getSteamID64 targets = Inr steamIDs
      \<and> net' (bansRequestURL (apiKey w) steamIDs) = Reply r'
      \<and> (ban_players r' = None \<or> ban_players r' = Some [])"
  then show "fst (GetPlayerBans new_SteamID getSteamID64 net' targets w) = Inr []"
    by (intro GetPlayerBans_no_entries [where steamIDs = steamIDs and r = r']) simp_all
next
  assume "length strs \<le> 100
      \<and> net (summariesRequestURL (apiKey w) strs) = Reply r
      \<and> (players r = None \<or> players r = Some [])"
  then show "fst (index_getPlayerSummaries net strs w) = Inr []"
    by (intro index_getPlayerSummaries_no_entries [where r = r]) simp_all
qed

text \<open>Scenario F, with an empty array for the summaries and an absent one for the bans.\<close>

theorem bulk_fetch_no_entries_witness:
  "length [Str ''76561197960287930'' :: string SteamIDResolvable] \<le> 100
   \<and> SteamIDResolvablesToSteamID64 decimal_SteamID decimal_getSteamID64 [Str ''76561197960287930'']
       = Inr [''76561197960287930'']
   \<and> answering \<lparr>players = Some []\<rparr> (summariesRequestURL (apiKey initial_world) [''76561197960287930''])
       = Reply \<lparr>players = Some []\<rparr>
   \<and> answering \<lparr>ban_players = None\<rparr> (bansRequestURL (apiKey initial_world) [''76561197960287930''])
       = Reply \<lparr>ban_players = None\<rparr>
   \<and> fst (GetPlayerSummaries decimal_SteamID decimal_getSteamID64 (answering \<lparr>players = Some []\<rparr>)
            [Str ''76561197960287930''] initial_world) = Inr []
   \<and> fst (getPlayerSummaries decimal_SteamID decimal_getSteamID64 (answering \<lparr>players = Some []\<rparr>)
            [Str ''76561197960287930''] initial_world) = Inr []
   \<and> fst (GetPlayerBans decimal_SteamID decimal_getSteamID64 (answering \<lparr>ban_players = None\<rparr>)
            [Str ''76561197960287930''] initial_world) = Inr []
   \<and> fst (index_getPlayerSummaries (answering \<lparr>players = Some []\<rparr>)
            [''76561197960287930''] initial_world) = Inr []"
proof -
  have a: "length [Str ''76561197960287930'' :: string SteamIDResolvable] \<le> 100" by simp
  have b: "SteamIDResolvablesToSteamID64 decimal_SteamID decimal_getSteamID64 [Str ''76561197960287930'']
       = Inr [''76561197960287930'']"
    by (simp add: decimal_76561197960287930 decimal_getSteamID64_def)
  have c: "answering \<lparr>players = Some []\<rparr> (summariesRequestURL (apiKey initial_world) [''76561197960287930''])
       = Reply \<lparr>players = Some []\<rparr>"
    by (simp add: answering_def)
  have d: "answering \<lparr>ban_players = None\<rparr> (bansRequestURL (apiKey initial_world) [''76561197960287930''])
       = Reply \<lparr>ban_players = None\<rparr>"
    by (simp add: answering_def)
  have e: "length [''76561197960287930''] \<le> 100" by simp
  have p: "players \<lparr>players = Some []\<rparr> = None \<or> players \<lparr>players = Some []\<rparr> = Some []"
    by simp
  have q: "ban_players \<lparr>ban_players = None\<rparr> = None \<or> ban_players \<lparr>ban_players = None\<rparr> = Some []"
    by simp
  note T = bulk_fetch_no_entries
         [where targets = "[Str ''76561197960287930'']" and new_SteamID = decimal_SteamID
            and steamIDs = "[''76561197960287930'']"
            and net = "answering \<lparr>players = Some []\<rparr>" and w = initial_world
            and r = "\<lparr>players = Some []\<rparr>" and net' = "answering \<lparr>ban_players = None\<rparr>"
            and r' = "\<lparr>ban_players = None\<rparr>" and strs = "[''76561197960287930'']"]
  have s1: "fst (GetPlayerSummaries decimal_SteamID decimal_getSteamID64 (answering \<lparr>players = Some []\<rparr>)
            [Str ''76561197960287930''] initial_world) = Inr []
   \<and> fst (getPlayerSummaries decimal_SteamID decimal_getSteamID64 (answering \<lparr>players = Some []\<rparr>)
            [Str ''76561197960287930''] initial_world) = Inr []"
    by (rule T [THEN conjunct1, THEN mp]) (intro conjI a b c p)
  have s2: "fst (GetPlayerBans decimal_SteamID decimal_getSteamID64 (answering \<lparr>ban_players = None\<rparr>)
            [Str ''76561197960287930''] initial_world) = Inr []"
    by (rule T [THEN conjunct2, THEN conjunct1, THEN mp]) (intro conjI a b d q)
  have s3: "fst (index_getPlayerSummaries (answering \<lparr>players = Some []\<rparr>)
            [''76561197960287930''] initial_world) = Inr []"
    by (rule T [THEN conjunct2, THEN conjunct2, THEN mp]) (intro conjI e c p)
  show ?thesis
    by (intro conjI; rule a b c d s1 [THEN conjunct1] s1 [THEN conjunct2] s2 s3)
qed



section \<open>The access key\<close>

lemma resolveVanityUrl_world:
  "snd (resolveVanityUrl new_SteamID net vanity w)
     = w\<lparr>requests := requests w @ [vanityRequestURL (apiKey w) vanity]\<rparr>"
  by (cases "net (vanityRequestURL (apiKey w) vanity)")
     (simp_all add: resolveVanityUrl_def axios_get_def Let_def split: option.splits)

lemma getSteamIDAsync_world:
  "snd (getSteamIDAsync new_SteamID getSteamID64 net x w) = w
   \<or> snd (getSteamIDAsync new_SteamID getSteamID64 net x w)
       = w\<lparr>requests := requests w @ [vanityRequestURL (apiKey w) (resolveURL x)]\<rparr>"
proof (cases "isValidSteamID new_SteamID x")
  case True
  then show ?thesis
    by (simp add: getSteamIDAsync_def split: option.splits)
next
  case False
  obtain looked w' where l: "resolveVanityUrl new_SteamID net (resolveURL x) w = (looked, w')"
    by (cases "resolveVanityUrl new_SteamID net (resolveURL x) w")
  with resolveVanityUrl_world [of new_SteamID net "resolveURL x" w]
  have "w' = w\<lparr>requests := requests w @ [vanityRequestURL (apiKey w) (resolveURL x)]\<rparr>"
    by simp
  with False l show ?thesis
    by (simp add: getSteamIDAsync_def Let_def split: option.splits)
qed

lemma GetPlayerSummaries_world:
  "snd (GetPlayerSummaries new_SteamID getSteamID64 net targets w) = w
   \<or> (\<exists>steamIDs. snd (GetPlayerSummaries new_SteamID getSteamID64 net targets w)
         = w\<lparr>requests := requests w @ [summariesRequestURL (apiKey w) steamIDs]\<rparr>)"
proof (cases "SteamIDResolvablesToSteamID64 new_SteamID getSteamID64 targets")
  case (Inl e)
  then show ?thesis by (simp add: GetPlayerSummaries_def)
next
  case (Inr steamIDs)
  then show ?thesis
    by (cases "net (summariesRequestURL (apiKey w) steamIDs)")
       (auto simp: GetPlayerSummaries_def axios_get_def)
qed

lemma GetPlayerBans_world:
  "snd (GetPlayerBans new_SteamID getSteamID64 net targets w) = w
   \<or> (\<exists>steamIDs. snd (GetPlayerBans new_SteamID getSteamID64 net targets w)
         = w\<lparr>requests := requests w @ [bansRequestURL (apiKey w) steamIDs]\<rparr>)"
proof (cases "SteamIDResolvablesToSteamID64 new_SteamID getSteamID64 targets")
  case (Inl e)
  then show ?thesis by (simp add: GetPlayerBans_def)
next
  case (Inr steamIDs)
  then show ?thesis
    by (cases "net (bansRequestURL (apiKey w) steamIDs)")
       (auto simp: GetPlayerBans_def axios_get_def)
qed

lemma apiKey_kept:
  "w' = w \<or> (\<exists>u. w' = w\<lparr>requests := requests w @ [u]\<rparr>) \<Longrightarrow> apiKey w' = apiKey w"
  by auto

lemma GetPlayerSummaries_world_sent:
  assumes "length targets \<le> 100"
      and "SteamIDResolvablesToSteamID64 new_SteamID getSteamID64 targets = Inr steamIDs"
  shows "snd (GetPlayerSummaries new_SteamID getSteamID64 net targets w)
           = w\<lparr>requests := requests w @ [summariesRequestURL (apiKey w) steamIDs]\<rparr>"
  using assms
  by (cases "net (summariesRequestURL (apiKey w) steamIDs)")
     (simp_all add: GetPlayerSummaries_def axios_get_def)

lemma GetPlayerBans_world_sent:
  assumes "length targets \<le> 100"
      and "SteamIDResolvablesToSteamID64 new_SteamID getSteamID64 targets = Inr steamIDs"
  shows "snd (GetPlayerBans new_SteamID getSteamID64 net targets w)
           = w\<lparr>requests := requests w @ [bansRequestURL (apiKey w) steamIDs]\<rparr>"
  using assms
  by (cases "net (bansRequestURL (apiKey w) steamIDs)")
     (simp_all add: GetPlayerBans_def axios_get_def)

lemma bulk_fetch_world_rejected:
  assumes "100 < length targets
           \<or> SteamIDResolvablesToSteamID64 new_SteamID getSteamID64 targets = Inl e"
  shows "snd (GetPlayerSummaries new_SteamID getSteamID64 net targets w) = w"
    and "snd (GetPlayerBans new_SteamID getSteamID64 net' targets w) = w"
  using assms by (auto simp: GetPlayerSummaries_def GetPlayerBans_def)

lemma getSteamIDAsync_world_valid:
  "isValidSteamID new_SteamID x \<Longrightarrow> snd (getSteamIDAsync new_SteamID getSteamID64 net x w) = w"
  by (simp add: getSteamIDAsync_def split: option.splits)

lemma getSteamIDAsync_world_lookup:
  assumes "\<not> isValidSteamID new_SteamID x"
  shows "snd (getSteamIDAsync new_SteamID getSteamID64 net x w)
           = w\<lparr>requests := requests w @ [vanityRequestURL (apiKey w) (resolveURL x)]\<rparr>"
proof -
  obtain looked w' where l: "resolveVanityUrl new_SteamID net (resolveURL x) w = (looked, w')"
    by (cases "resolveVanityUrl new_SteamID net (resolveURL x) w")
  with resolveVanityUrl_world [of new_SteamID net "resolveURL x" w]
  have "w' = w\<lparr>requests := requests w @ [vanityRequestURL (apiKey w) (resolveURL x)]\<rparr>"
    by simp
  with assms l show ?thesis
    by (simp add: getSteamIDAsync_def Let_def split: option.splits)
qed

text \<open>
  Claim C8. The access key is one field of the world. It starts as the empty string (no
  key); \<open>setApiKey\<close> stores any string as it is and touches nothing else; no other
  operation changes it. Every operation that reaches the network hands \<open>axios.get\<close>
  exactly one URL, built from the content of the slot at the time of the call: the bulk
  fetches when there are at most 100 targets and all of them convert, \<open>resolveVanityUrl\<close>
  always, \<open>getSteamIDAsync\<close> when the input is not a valid identifier. In the remaining
  cases no request is made.
\<close>

theorem apiKey_slot:
  "apiKey initial_world = []
   \<and> apiKey (setApiKey key w) = key
   \<and> requests (setApiKey key w) = requests w
   \<and> apiKey (snd (GetPlayerSummaries new_SteamID getSteamID64 net targets w)) = apiKey w
   \<and> apiKey (snd (GetPlayerBans new_SteamID getSteamID64 netb targets w)) = apiKey w
   \<and> apiKey (snd (resolveVanityUrl new_SteamID netv vanity w)) = apiKey w
   \<and> apiKey (snd (getSteamIDAsync new_SteamID getSteamID64 netv x w)) = apiKey w
   \<and> (length targets \<le> 100
        \<and> SteamIDResolvablesToSteamID64 new_SteamID getSteamID64 targets = Inr steamIDs
      \<longrightarrow> requests (snd (GetPlayerSummaries new_SteamID getSteamID64 net targets w))
            = requests w @ [''http://api.steampowered.com/ISteamUser/GetPlayerSummaries/v0002/?key=''
                              @ apiKey w @ ''&steamids='' @ join_comma steamIDs]
        \<and> requests (snd (getPlayerSummaries new_SteamID getSteamID64 net targets w))
            = requests w @ [''http://api.steampowered.com/ISteamUser/GetPlayerSummaries/v0002/?key=''
                              @ apiKey w @ ''&steamids='' @ join_comma steamIDs]
        \<and> requests (snd (GetPlayerBans new_SteamID getSteamID64 netb targets w))
            = requests w @ [''http://api.steampowered.com/ISteamUser/GetPlayerBans/v1/?key=''
                              @ apiKey w @ ''&steamids='' @ join_comma steamIDs])
   \<and> (100 < length targets
        \<or> SteamIDResolvablesToSteamID64 new_SteamID getSteamID64 targets = Inl e
      \<longrightarrow> requests (snd (GetPlayerSummaries new_SteamID getSteamID64 net targets w)) = requests w
        \<and> requests (snd (getPlayerSummaries new_SteamID getSteamID64 net targets w)) = requests w
        \<and> requests (snd (GetPlayerBans new_SteamID getSteamID64 netb targets w)) = requests w)
   \<and> requests (snd (resolveVanityUrl new_SteamID netv vanity w))
       = requests w @ [''http://api.steampowered.com/ISteamUser/ResolveVanityURL/v0001/?key=''
                         @ apiKey w @ ''&vanityurl='' @ vanity]
   \<and> (\<not> isValidSteamID new_SteamID x
      \<longrightarrow> requests (snd (getSteamIDAsync new_SteamID getSteamID64 netv x w))
            = requests w @ [''http://api.steampowered.com/ISteamUser/ResolveVanityURL/v0001/?key=''
                              @ apiKey w @ ''&vanityurl='' @ resolveURL x])
   \<and> (isValidSteamID new_SteamID x
      \<longrightarrow> requests (snd (getSteamIDAsync new_SteamID getSteamID64 netv x w)) = requests w)"
proof (intro conjI impI)
  show "apiKey initial_world = []" by (simp add: initial_world_def)
  show "apiKey (setApiKey key w) = key" by (simp add: setApiKey_def)
  show "requests (setApiKey key w) = requests w" by (simp add: setApiKey_def)
  show "apiKey (snd (GetPlayerSummaries new_SteamID getSteamID64 net targets w)) = apiKey w"
    using GetPlayerSummaries_world [of new_SteamID getSteamID64 net targets w]
    by (intro apiKey_kept) blast
  show "apiKey (snd (GetPlayerBans new_SteamID getSteamID64 netb targets w)) = apiKey w"
    using GetPlayerBans_world [of new_SteamID getSteamID64 netb targets w]
    by (intro apiKey_kept) blast
  show "apiKey (snd (resolveVanityUrl new_SteamID netv vanity w)) = apiKey w"
    by (simp add: resolveVanityUrl_world)
  show "apiKey (snd (getSteamIDAsync new_SteamID getSteamID64 netv x w)) = apiKey w"
    using getSteamIDAsync_world [of new_SteamID getSteamID64 netv x w]
    by (intro apiKey_kept) blast
  show "requests (snd (resolveVanityUrl new_SteamID netv vanity w))
       = requests w @ [''http://api.steampowered.com/ISteamUser/ResolveVanityURL/v0001/?key=''
                         @ apiKey w @ ''&vanityurl='' @ vanity]"
    by (simp add: resolveVanityUrl_world vanityRequestURL_def)
next
  assume "length targets \<le> 100
        \<and> SteamIDResolvablesToSteamID64 new_SteamID getSteamID64 targets = Inr steamIDs"
  then have l: "length targets \<le> 100"
    and c: "SteamIDResolvablesToSteamID64 new_SteamID getSteamID64 targets = Inr steamIDs"
    by simp_all
  show s: "requests (snd (GetPlayerSummaries new_SteamID getSteamID64 net targets w))
            = requests w @ [''http://api.steampowered.com/ISteamUser/GetPlayerSummaries/v0002/?key=''
                              @ apiKey w @ ''&steamids='' @ join_comma steamIDs]"
    by (simp add: GetPlayerSummaries_world_sent [OF l c] summariesRequestURL_def)
  then show "requests (snd (getPlayerSummaries new_SteamID getSteamID64 net targets w))
            = requests w @ [''http://api.steampowered.com/ISteamUser/GetPlayerSummaries/v0002/?key=''
                              @ apiKey w @ ''&steamids='' @ join_comma steamIDs]"
    by (simp only: getPlayerSummaries_def)
  show "requests (snd (GetPlayerBans new_SteamID getSteamID64 netb targets w))
            = requests w @ [''http://api.steampowered.com/ISteamUser/GetPlayerBans/v1/?key=''
                              @ apiKey w @ ''&steamids='' @ join_comma steamIDs]"
    by (simp add: GetPlayerBans_world_sent [OF l c] bansRequestURL_def)
next
  assume r: "100 < length targets
        \<or> SteamIDResolvablesToSteamID64 new_SteamID getSteamID64 targets = Inl e"
  show s: "requests (snd (GetPlayerSummaries new_SteamID getSteamID64 net targets w)) = requests w"
    by (simp add: bulk_fetch_world_rejected(1) [OF r])
  then show "requests (snd (getPlayerSummaries new_SteamID getSteamID64 net targets w)) = requests w"
    by (simp only: getPlayerSummaries_def)
  show "requests (snd (GetPlayerBans new_SteamID getSteamID64 netb targets w)) = requests w"
    by (simp add: bulk_fetch_world_rejected(2) [OF r])
next
  assume "\<not> isValidSteamID new_SteamID x"
  then show "requests (snd (getSteamIDAsync new_SteamID getSteamID64 netv x w))
            = requests w @ [''http://api.steampowered.com/ISteamUser/ResolveVanityURL/v0001/?key=''
                              @ apiKey w @ ''&vanityurl='' @ resolveURL x]"
    by (simp add: getSteamIDAsync_world_lookup vanityRequestURL_def)
next
  assume "isValidSteamID new_SteamID x"
  then show "requests (snd (getSteamIDAsync new_SteamID getSteamID64 netv x w)) = requests w"
    by (simp add: getSteamIDAsync_world_valid)
qed

text \<open>
  A key is stored and then read: after \<open>setApiKey ''KEY''\<close> on the initial world, each
  operation that reaches the network logs the one URL carrying \<open>KEY\<close>, and the calls
  that are rejected or resolved locally log nothing.
\<close>

theorem apiKey_slot_witness:
  "apiKey (setApiKey ''KEY'' initial_world) = ''KEY''
   \<and> requests (snd (GetPlayerSummaries decimal_SteamID decimal_getSteamID64
                      (answering \<lparr>players = Some []\<rparr>) [Str ''76561197960287930'']
                      (setApiKey ''KEY'' initial_world)))
       = [''http://api.steampowered.com/ISteamUser/GetPlayerSummaries/v0002/?key=KEY&steamids=76561197960287930'']
   \<and> requests (snd (GetPlayerBans decimal_SteamID decimal_getSteamID64
                      (answering \<lparr>ban_players = None\<rparr>) [Str ''76561197960287930'']
                      (setApiKey ''KEY'' initial_world)))
       = [''http://api.steampowered.com/ISteamUser/GetPlayerBans/v1/?key=KEY&steamids=76561197960287930'']
   \<and> requests (snd (GetPlayerSummaries decimal_SteamID decimal_getSteamID64
                      (answering \<lparr>players = Some []\<rparr>) [Str ''coolname'']
                      (setApiKey ''KEY'' initial_world))) = []
   \<and> requests (snd (resolveVanityUrl decimal_SteamID unreachable ''coolname''
                      (setApiKey ''KEY'' initial_world)))
       = [''http://api.steampowered.com/ISteamUser/ResolveVanityURL/v0001/?key=KEY&vanityurl=coolname'']
   \<and> requests (snd (getSteamIDAsync decimal_SteamID decimal_getSteamID64 unreachable
                      ''coolname'' (setApiKey ''KEY'' initial_world)))
       = [''http://api.steampowered.com/ISteamUser/ResolveVanityURL/v0001/?key=KEY&vanityurl=coolname'']
   \<and> requests (snd (getSteamIDAsync decimal_SteamID decimal_getSteamID64 unreachable
                      ''76561197960287930'' (setApiKey ''KEY'' initial_world))) = []"
proof -
  let ?w = "setApiKey ''KEY'' initial_world"
  have k: "apiKey ?w = ''KEY''" and q: "requests ?w = []"
    by (simp_all add: setApiKey_def initial_world_def)
  have l: "length [Str ''76561197960287930'' :: string SteamIDResolvable] \<le> 100" by simp
  have c: "SteamIDResolvablesToSteamID64 decimal_SteamID decimal_getSteamID64
             [Str ''76561197960287930''] = Inr [''76561197960287930'']"
    by (simp add: decimal_76561197960287930 decimal_getSteamID64_def)
  have r: "100 < length [Str ''coolname'' :: string SteamIDResolvable]
           \<or> SteamIDResolvablesToSteamID64 decimal_SteamID decimal_getSteamID64 [Str ''coolname'']
               = Inl (InvalidIdentifierFormat ''coolname'')"
    by (simp add: decimal_rejects_coolname)
  have nv: "\<not> isValidSteamID decimal_SteamID ''coolname''"
    by (simp add: isValidSteamID_def decimal_rejects_coolname)
  have v: "isValidSteamID decimal_SteamID ''76561197960287930''"
    by (simp add: isValidSteamID_def decimal_76561197960287930)
  note sent = apiKey_slot
       [where targets = "[Str ''76561197960287930'']" and new_SteamID = decimal_SteamID
          and steamIDs = "[''76561197960287930'']" and w = ?w
          and net = "answering \<lparr>players = Some []\<rparr>" and netb = "answering \<lparr>ban_players = None\<rparr>"
          and netv = unreachable and vanity = "''coolname''" and x = "''coolname''"]
  note kept = apiKey_slot
       [where targets = "[Str ''coolname'']" and new_SteamID = decimal_SteamID
          and e = "InvalidIdentifierFormat ''coolname''" and w = ?w
          and net = "answering \<lparr>players = Some []\<rparr>"
          and netv = unreachable and x = "''76561197960287930''"]
  note s7 = sent [THEN conjunct2, THEN conjunct2, THEN conjunct2, THEN conjunct2,
                  THEN conjunct2, THEN conjunct2, THEN conjunct2]
  note k7 = kept [THEN conjunct2, THEN conjunct2, THEN conjunct2, THEN conjunct2,
                  THEN conjunct2, THEN conjunct2, THEN conjunct2]
  have bulk: "requests (snd (GetPlayerSummaries decimal_SteamID decimal_getSteamID64
                      (answering \<lparr>players = Some []\<rparr>) [Str ''76561197960287930''] ?w))
            = requests ?w @ [''http://api.steampowered.com/ISteamUser/GetPlayerSummaries/v0002/?key=''
                              @ apiKey ?w @ ''&steamids='' @ join_comma [''76561197960287930'']]
        \<and> requests (snd (getPlayerSummaries decimal_SteamID decimal_getSteamID64
                      (answering \<lparr>players = Some []\<rparr>) [Str ''76561197960287930''] ?w))
            = requests ?w @ [''http://api.steampowered.com/ISteamUser/GetPlayerSummaries/v0002/?key=''
                              @ apiKey ?w @ ''&steamids='' @ join_comma [''76561197960287930'']]
        \<and> requests (snd (GetPlayerBans decimal_SteamID decimal_getSteamID64
                      (answering \<lparr>ban_players = None\<rparr>) [Str ''76561197960287930''] ?w))
            = requests ?w @ [''http://api.steampowered.com/ISteamUser/GetPlayerBans/v1/?key=''
                              @ apiKey ?w @ ''&steamids='' @ join_comma [''76561197960287930'']]"
    by (rule s7 [THEN conjunct1, THEN mp]) (intro conjI l c)
  have rej: "requests (snd (GetPlayerSummaries decimal_SteamID decimal_getSteamID64
                      (answering \<lparr>players = Some []\<rparr>) [Str ''coolname''] ?w)) = requests ?w"
    by (rule k7 [THEN conjunct2, THEN conjunct1, THEN mp, THEN conjunct1]) (rule r)
  have van: "requests (snd (resolveVanityUrl decimal_SteamID unreachable ''coolname'' ?w))
       = requests ?w @ [''http://api.steampowered.com/ISteamUser/ResolveVanityURL/v0001/?key=''
                         @ apiKey ?w @ ''&vanityurl='' @ ''coolname'']"
    by (rule s7 [THEN conjunct2, THEN conjunct2, THEN conjunct1])
  have look: "requests (snd (getSteamIDAsync decimal_SteamID decimal_getSteamID64 unreachable
                      ''coolname'' ?w))
       = requests ?w @ [''http://api.steampowered.com/ISteamUser/ResolveVanityURL/v0001/?key=''
                         @ apiKey ?w @ ''&vanityurl='' @ resolveURL ''coolname'']"
    by (rule s7 [THEN conjunct2, THEN conjunct2, THEN conjunct2, THEN conjunct1, THEN mp]) (rule nv)
  have loc: "requests (snd (getSteamIDAsync decimal_SteamID decimal_getSteamID64 unreachable
                      ''76561197960287930'' ?w)) = requests ?w"
    by (rule k7 [THEN conjunct2, THEN conjunct2, THEN conjunct2, THEN conjunct2, THEN mp]) (rule v)
  have 1: "requests (snd (GetPlayerSummaries decimal_SteamID decimal_getSteamID64
                      (answering \<lparr>players = Some []\<rparr>) [Str ''76561197960287930''] ?w))
       = [''http://api.steampowered.com/ISteamUser/GetPlayerSummaries/v0002/?key=KEY&steamids=76561197960287930'']"
    using bulk [THEN conjunct1] by (simp add: k q)
  have 2: "requests (snd (GetPlayerBans decimal_SteamID decimal_getSteamID64
                      (answering \<lparr>ban_players = None\<rparr>) [Str ''76561197960287930''] ?w))
       = [''http://api.steampowered.com/ISteamUser/GetPlayerBans/v1/?key=KEY&steamids=76561197960287930'']"
    using bulk [THEN conjunct2, THEN conjunct2] by (simp add: k q)
  have 3: "requests (snd (GetPlayerSummaries decimal_SteamID decimal_getSteamID64
                      (answering \<lparr>players = Some []\<rparr>) [Str ''coolname''] ?w)) = []"
    using rej by (simp add: q)
  have 4: "requests (snd (resolveVanityUrl decimal_SteamID unreachable ''coolname'' ?w))
       = [''http://api.steampowered.com/ISteamUser/ResolveVanityURL/v0001/?key=KEY&vanityurl=coolname'']"
    using van by (simp add: k q)
  have 5: "requests (snd (getSteamIDAsync decimal_SteamID decimal_getSteamID64 unreachable
                      ''coolname'' ?w))
       = [''http://api.steampowered.com/ISteamUser/ResolveVanityURL/v0001/?key=KEY&vanityurl=coolname'']"
    using look by (simp add: k q resolveURL_coolname)
  have 6: "requests (snd (getSteamIDAsync decimal_SteamID decimal_getSteamID64 unreachable
                      ''76561197960287930'' ?w)) = []"
    using loc by (simp add: q)
  show ?thesis
    by (intro conjI; rule k 1 2 3 4 5 6)
qed

section \<open>resolveVanityUrl: properties\<close>

lemma resolveVanityUrl_reply:
  assumes "net (vanityRequestURL (apiKey w) vanity) = Reply r"
  shows "fst (resolveVanityUrl new_SteamID net vanity w)
           = (case steamid r of
                None \<Rightarrow> Inl NotAValidSteamID
              | Some s \<Rightarrow> if s = [] then Inl NotAValidSteamID
                          else (case new_SteamID s of
                                  None \<Rightarrow> Inl (InvalidIdentifierFormat s)
                                | Some sid \<Rightarrow> Inr sid))"
  using assms
  by (simp add: resolveVanityUrl_def axios_get_def Let_def split: option.splits)

lemma index_resolveVanityUrl_reply:
  assumes "net (vanityRequestURL (apiKey w) vanity) = Reply r"
  shows "fst (index_resolveVanityUrl net vanity w)
           = (case steamid r of
                None \<Rightarrow> Inl NotAValidSteamID
              | Some s \<Rightarrow> if s = [] then Inl NotAValidSteamID else Inr s)"
  using assms
  by (simp add: index_resolveVanityUrl_def axios_get_def Let_def split: option.splits)

text \<open>
  Claim C9 as stated fails at a response that contains a \<open>steamid\<close> field and still makes
  \<open>resolveVanityUrl\<close> throw: an empty \<open>steamid\<close> is falsy, and a \<open>steamid\<close> that the
  constructor rejects makes \<open>new SteamID(steamID)\<close> throw.
\<close>

theorem resolveVanityUrl_steamid_present_counterexample:
  "steamid \<lparr>success = 1, steamid = Some [], message = None\<rparr> = Some []
   \<and> fst (resolveVanityUrl decimal_SteamID
            (answering \<lparr>success = 1, steamid = Some [], message = None\<rparr>)
            ''coolname'' initial_world) = Inl NotAValidSteamID
   \<and> fst (index_resolveVanityUrl
            (answering \<lparr>success = 1, steamid = Some [], message = None\<rparr>)
            ''coolname'' initial_world) = Inl NotAValidSteamID
   \<and> fst (resolveVanityUrl decimal_SteamID
            (answering \<lparr>success = 1, steamid = Some ''coolname'', message = None\<rparr>)
            ''coolname'' initial_world) = Inl (InvalidIdentifierFormat ''coolname'')"
  by (simp add: resolveVanityUrl_reply index_resolveVanityUrl_reply answering_def
        decimal_rejects_coolname)

text \<open>
  Claim C9, amended. \<open>resolveVanityUrl\<close> decides by the truthiness of \<open>steamid\<close> and never
  reads \<open>success\<close>. For a response whose \<open>steamid\<close> is a non-empty string, the function
  returns the identifier the constructor builds from it, or fails with the constructor's
  error when the constructor rejects it (the version of \<open>src/index.ts\<close> returns the string
  itself); for a response whose \<open>steamid\<close> is absent or empty it throws
  \<open>'Not a valid SteamID'\<close>; and a response that differs only in \<open>success\<close> gives the same
  result.
\<close>

theorem resolveVanityUrl_decided_by_steamid:
  assumes "net (vanityRequestURL (apiKey w) vanity) = Reply r"
      and "net' (vanityRequestURL (apiKey w) vanity) = Reply (r\<lparr>success := k\<rparr>)"
  shows "(steamid r = Some s \<and> s \<noteq> [] \<and> new_SteamID s = Some sid
            \<longrightarrow> fst (resolveVanityUrl new_SteamID net vanity w) = Inr sid)
       \<and> (steamid r = Some s \<and> s \<noteq> [] \<and> new_SteamID s = None
            \<longrightarrow> fst (resolveVanityUrl new_SteamID net vanity w) = Inl (InvalidIdentifierFormat s))
       \<and> (steamid r = Some s \<and> s \<noteq> []
            \<longrightarrow> fst (index_resolveVanityUrl net vanity w) = Inr s)
       \<and> (steamid r = None \<or> steamid r = Some []
            \<longrightarrow> fst (resolveVanityUrl new_SteamID net vanity w) = Inl NotAValidSteamID
              \<and> fst (index_resolveVanityUrl net vanity w) = Inl NotAValidSteamID)
       \<and> fst (resolveVanityUrl new_SteamID net' vanity w)
           = fst (resolveVanityUrl new_SteamID net vanity w)
       \<and> fst (index_resolveVanityUrl net' vanity w) = fst (index_resolveVanityUrl net vanity w)"
proof -
  note a = resolveVanityUrl_reply [where net = net and r = r and new_SteamID = new_SteamID, OF assms(1)]
   and b = index_resolveVanityUrl_reply [where net = net and r = r, OF assms(1)]
   and a' = resolveVanityUrl_reply
              [where net = net' and r = "r\<lparr>success := k\<rparr>" and new_SteamID = new_SteamID, OF assms(2)]
   and b' = index_resolveVanityUrl_reply [where net = net' and r = "r\<lparr>success := k\<rparr>", OF assms(2)]
  have 1: "steamid r = Some s \<and> s \<noteq> [] \<and> new_SteamID s = Some sid
            \<longrightarrow> fst (resolveVanityUrl new_SteamID net vanity w) = Inr sid"
    by (simp add: a)
  have 2: "steamid r = Some s \<and> s \<noteq> [] \<and> new_SteamID s = None
            \<longrightarrow> fst (resolveVanityUrl new_SteamID net vanity w) = Inl (InvalidIdentifierFormat s)"
    by (simp add: a)
  have 3: "steamid r = Some s \<and> s \<noteq> []
            \<longrightarrow> fst (index_resolveVanityUrl net vanity w) = Inr s"
    by (simp add: b)
  have 4: "steamid r = None \<or> steamid r = Some []
            \<longrightarrow> fst (resolveVanityUrl new_SteamID net vanity w) = Inl NotAValidSteamID
              \<and> fst (index_resolveVanityUrl net vanity w) = Inl NotAValidSteamID"
    by (auto simp: a b)
  have 5: "fst (resolveVanityUrl new_SteamID net' vanity w)
           = fst (resolveVanityUrl new_SteamID net vanity w)"
    by (simp add: a a')
  have 6: "fst (index_resolveVanityUrl net' vanity w) = fst (index_resolveVanityUrl net vanity w)"
    by (simp add: b b')
  show ?thesis by (intro conjI; rule 1 2 3 4 5 6)
qed

text \<open>Responses with an accepted, a rejected and an absent \<open>steamid\<close>, under two values of \<open>success\<close>.\<close>

theorem resolveVanityUrl_decided_by_steamid_witness:
  "fst (resolveVanityUrl decimal_SteamID
          (answering \<lparr>success = 42, steamid = Some ''76561197960287930'', message = None\<rparr>)
          ''coolname'' initial_world) = Inr ''76561197960287930''
   \<and> fst (index_resolveVanityUrl
          (answering \<lparr>success = 42, steamid = Some ''76561197960287930'', message = None\<rparr>)
          ''coolname'' initial_world) = Inr ''76561197960287930''
   \<and> fst (resolveVanityUrl decimal_SteamID
          (answering \<lparr>success = 1, steamid = Some ''coolname'', message = None\<rparr>)
          ''coolname'' initial_world) = Inl (InvalidIdentifierFormat ''coolname'')
   \<and> fst (resolveVanityUrl decimal_SteamID
          (answering \<lparr>success = 1, steamid = None, message = Some ''No match''\<rparr>)
          ''coolname'' initial_world) = Inl NotAValidSteamID
   \<and> fst (index_resolveVanityUrl
          (answering \<lparr>success = 1, steamid = None, message = Some ''No match''\<rparr>)
          ''coolname'' initial_world) = Inl NotAValidSteamID
   \<and> fst (resolveVanityUrl decimal_SteamID
          (answering \<lparr>success = 1, steamid = None, message = Some ''No match''\<rparr>)
          ''coolname'' initial_world)
       = fst (resolveVanityUrl decimal_SteamID
          (answering \<lparr>success = 42, steamid = None, message = Some ''No match''\<rparr>)
          ''coolname'' initial_world)"
proof -
  let ?url = "vanityRequestURL (apiKey initial_world) ''coolname''"
  let ?r1 = "\<lparr>success = 42, steamid = Some ''76561197960287930'', message = None\<rparr>"
  let ?r2 = "\<lparr>success = 1, steamid = Some ''coolname'', message = None\<rparr>"
  let ?r3 = "\<lparr>success = 42, steamid = None, message = Some ''No match''\<rparr>"
  let ?r3' = "\<lparr>success = 1, steamid = None, message = Some ''No match''\<rparr>"
  have n1: "answering ?r1 ?url = Reply ?r1" and n1': "answering ?r1 ?url = Reply (?r1\<lparr>success := 42\<rparr>)"
   and n2: "answering ?r2 ?url = Reply ?r2" and n2': "answering ?r2 ?url = Reply (?r2\<lparr>success := 1\<rparr>)"
   and n3: "answering ?r3 ?url = Reply ?r3" and n3': "answering ?r3' ?url = Reply (?r3\<lparr>success := 1\<rparr>)"
    by (simp_all add: answering_def)
  note t1 = resolveVanityUrl_decided_by_steamid
              [where net = "answering ?r1" and net' = "answering ?r1" and r = ?r1 and k = 42
                 and w = initial_world and vanity = "''coolname''" and new_SteamID = decimal_SteamID
                 and s = "''76561197960287930''" and sid = "''76561197960287930''", OF n1 n1']
   and t2 = resolveVanityUrl_decided_by_steamid
              [where net = "answering ?r2" and net' = "answering ?r2" and r = ?r2 and k = 1
                 and w = initial_world and vanity = "''coolname''" and new_SteamID = decimal_SteamID
                 and s = "''coolname''", OF n2 n2']
   and t3 = resolveVanityUrl_decided_by_steamid
              [where net = "answering ?r3" and net' = "answering ?r3'" and r = ?r3 and k = 1
                 and w = initial_world and vanity = "''coolname''" and new_SteamID = decimal_SteamID,
               OF n3 n3']
  have c1: "fst (resolveVanityUrl decimal_SteamID (answering ?r1) ''coolname'' initial_world)
              = Inr ''76561197960287930''"
    using t1 by (simp add: decimal_76561197960287930)
  have c2: "fst (index_resolveVanityUrl (answering ?r1) ''coolname'' initial_world)
              = Inr ''76561197960287930''"
    using t1 by simp
  have c3: "fst (resolveVanityUrl decimal_SteamID (answering ?r2) ''coolname'' initial_world)
              = Inl (InvalidIdentifierFormat ''coolname'')"
    using t2 by (simp add: decimal_rejects_coolname)
  have c4: "fst (resolveVanityUrl decimal_SteamID (answering ?r3) ''coolname'' initial_world)
              = Inl NotAValidSteamID
            \<and> fst (index_resolveVanityUrl (answering ?r3) ''coolname'' initial_world)
              = Inl NotAValidSteamID"
    using t3 by simp
  have c5: "fst (resolveVanityUrl decimal_SteamID (answering ?r3') ''coolname'' initial_world)
       = fst (resolveVanityUrl decimal_SteamID (answering ?r3) ''coolname'' initial_world)"
    using t3 by simp
  have c6: "fst (resolveVanityUrl decimal_SteamID (answering ?r3') ''coolname'' initial_world)
              = Inl NotAValidSteamID
            \<and> fst (index_resolveVanityUrl (answering ?r3') ''coolname'' initial_world)
              = Inl NotAValidSteamID"
    using c4 c5 t3 by simp
  show ?thesis
    by (intro conjI; rule c1 c2 c3 c6 [THEN conjunct1] c6 [THEN conjunct2] c5)
qed



section \<open>resolveURL: properties\<close>

lemma startsWith_iff: "startsWith p s \<longleftrightarrow> (\<exists>b. s = p @ b)"
proof
  assume "startsWith p s"
  then have "s = p @ drop (length p) s"
    unfolding startsWith_def by (metis append_take_drop_id)
  then show "\<exists>b. s = p @ b" ..
next
  assume "\<exists>b. s = p @ b"
  then show "startsWith p s" by (auto simp: startsWith_def)
qed

lemma matchHere_Some:
  assumes "matchHere lit s = Some n"
  shows "\<exists>m b. s = m @ b \<and> (m = ''http'' @ lit \<or> m = ''https'' @ lit) \<and> drop n s = b"
proof (cases "startsWith (''https'' @ lit) s")
  case True
  then obtain b where "s = (''https'' @ lit) @ b" by (auto simp: startsWith_iff)
  moreover from True assms have "n = length (''https'' @ lit)" by (simp add: matchHere_def)
  ultimately show ?thesis by (intro exI [of _ "''https'' @ lit"] exI [of _ b]) simp
next
  case False
  with assms have h: "startsWith (''http'' @ lit) s" and n: "n = length (''http'' @ lit)"
    by (auto simp: matchHere_def split: if_splits)
  from h obtain b where "s = (''http'' @ lit) @ b" by (auto simp: startsWith_iff)
  with n show ?thesis by (intro exI [of _ "''http'' @ lit"] exI [of _ b]) simp
qed

lemma matchHere_None:
  assumes "matchHere lit s = None" and "m = ''http'' @ lit \<or> m = ''https'' @ lit"
  shows "s \<noteq> m @ b"
proof
  assume "s = m @ b"
  then have "startsWith m s" by (auto simp: startsWith_iff)
  with assms show False by (auto simp: matchHere_def split: if_splits)
qed

lemma matchRe_iff:
  "matchRe lit x \<longleftrightarrow> (\<exists>a m b. x = a @ m @ b \<and> (m = ''http'' @ lit \<or> m = ''https'' @ lit))"
proof (induction x)
  case Nil
  then show ?case by auto
next
  case (Cons c cs)
  show ?case
  proof (cases "matchHere lit (c # cs)")
    case (Some n)
    from matchHere_Some [OF Some] obtain m b
      where "c # cs = [] @ m @ b" "m = ''http'' @ lit \<or> m = ''https'' @ lit" by auto
    then have "\<exists>a m b. c # cs = a @ m @ b \<and> (m = ''http'' @ lit \<or> m = ''https'' @ lit)"
      by blast
    with Some show ?thesis by simp
  next
    case None
    have "(\<exists>a m b. c # cs = a @ m @ b \<and> (m = ''http'' @ lit \<or> m = ''https'' @ lit))
            \<longleftrightarrow> (\<exists>a m b. cs = a @ m @ b \<and> (m = ''http'' @ lit \<or> m = ''https'' @ lit))"
    proof
      assume "\<exists>a m b. c # cs = a @ m @ b \<and> (m = ''http'' @ lit \<or> m = ''https'' @ lit)"
      then obtain a m b where o: "c # cs = a @ m @ b" "m = ''http'' @ lit \<or> m = ''https'' @ lit"
        by blast
      with matchHere_None [OF None o(2)] obtain a' where "a = c # a'"
        by (cases a) auto
      with o show "\<exists>a m b. cs = a @ m @ b \<and> (m = ''http'' @ lit \<or> m = ''https'' @ lit)"
        by auto
    next
      assume "\<exists>a m b. cs = a @ m @ b \<and> (m = ''http'' @ lit \<or> m = ''https'' @ lit)"
      then obtain a m b where "cs = a @ m @ b" "m = ''http'' @ lit \<or> m = ''https'' @ lit"
        by blast
      then have "c # cs = (c # a) @ m @ b \<and> (m = ''http'' @ lit \<or> m = ''https'' @ lit)"
        by simp
      then show "\<exists>a m b. c # cs = a @ m @ b \<and> (m = ''http'' @ lit \<or> m = ''https'' @ lit)"
        by blast
    qed
    with None Cons.IH show ?thesis by simp
  qed
qed


lemma replaceRe_firstMatchCut: "firstMatchCut lit x (replaceRe lit x)"
proof (induction x)
  case Nil
  then show ?case by (simp add: firstMatchCut_def)
next
  case (Cons c cs)
  show ?case
  proof (cases "matchHere lit (c # cs)")
    case (Some n)
    from matchHere_Some [OF Some] obtain m b
      where o: "c # cs = m @ b" "m = ''http'' @ lit \<or> m = ''https'' @ lit" "drop n (c # cs) = b"
      by blast
    from Some o(3) have "replaceRe lit (c # cs) = [] @ b" by simp
    with o(1,2) show ?thesis
      unfolding firstMatchCut_def by (intro disjI1 exI [of _ "[]"] exI [of _ m] exI [of _ b]) simp
  next
    case None
    then have r: "replaceRe lit (c # cs) = c # replaceRe lit cs" by simp
    have shift: "\<exists>a''. a' = c # a'' \<and> cs = a'' @ m' @ b'"
      if "c # cs = a' @ m' @ b'" "m' = ''http'' @ lit \<or> m' = ''https'' @ lit" for a' m' b'
      using that matchHere_None [OF None that(2)] by (cases a') auto
    from Cons.IH consider
        (cut) a m b where "cs = a @ m @ b" "m = ''http'' @ lit \<or> m = ''https'' @ lit"
          "replaceRe lit cs = a @ b"
          "\<forall>a' m' b'. cs = a' @ m' @ b' \<and> (m' = ''http'' @ lit \<or> m' = ''https'' @ lit)
                        \<longrightarrow> length a \<le> length a'"
      | (same) "replaceRe lit cs = cs"
          "\<not> (\<exists>a m b. cs = a @ m @ b \<and> (m = ''http'' @ lit \<or> m = ''https'' @ lit))"
      unfolding firstMatchCut_def by blast
    then show ?thesis
    proof cases
      case cut
      have "\<forall>a' m' b'. c # cs = a' @ m' @ b' \<and> (m' = ''http'' @ lit \<or> m' = ''https'' @ lit)
                        \<longrightarrow> length (c # a) \<le> length a'"
      proof (intro allI impI, elim conjE)
        fix a' m' b'
        assume o: "c # cs = a' @ m' @ b'" "m' = ''http'' @ lit \<or> m' = ''https'' @ lit"
        from shift [OF this] obtain a'' where "a' = c # a''" "cs = a'' @ m' @ b'" by blast
        with cut(4) o(2) show "length (c # a) \<le> length a'"
          by auto
      qed
      moreover from cut r have "c # cs = (c # a) @ m @ b" "replaceRe lit (c # cs) = (c # a) @ b"
        by simp_all
      ultimately show ?thesis
        unfolding firstMatchCut_def using cut(2)
        by (intro disjI1 exI [of _ "c # a"] exI [of _ m] exI [of _ b]) simp
    next
      case same
      have "\<not> (\<exists>a m b. c # cs = a @ m @ b \<and> (m = ''http'' @ lit \<or> m = ''https'' @ lit))"
        using shift same(2) by blast
      with same(1) r show ?thesis
        unfolding firstMatchCut_def by simp
    qed
  qed
qed

lemma replaceSlash_append:
  "CHR ''/'' \<notin> set u \<Longrightarrow> replaceSlash (u @ CHR ''/'' # v) = u @ v"
  by (induction u) auto

lemma replaceSlash_none: "CHR ''/'' \<notin> set z \<Longrightarrow> replaceSlash z = z"
  by (induction z) auto

lemma replaceSlash_firstSlashCut: "firstSlashCut z (replaceSlash z)"
proof (cases "CHR ''/'' \<in> set z")
  case True
  then obtain u v where "z = u @ CHR ''/'' # v" "CHR ''/'' \<notin> set u"
    by (auto dest: split_list_first)
  then show ?thesis
    unfolding firstSlashCut_def
    by (intro disjI1 exI [of _ u] exI [of _ v]) (simp add: replaceSlash_append)
next
  case False
  then show ?thesis by (simp add: firstSlashCut_def replaceSlash_none)
qed

lemma count_replaceSlash:
  "count_list (replaceSlash z) (CHR ''/'') = count_list z (CHR ''/'') - 1"
  by (induction z) auto

lemma recognized_matches:
  assumes "p \<in> set recognizedPrefixes"
  shows "matchRe profilesLit (a @ p @ b) \<or> matchRe customLit (a @ p @ b)"
proof -
  from assms consider
      "p = ''http'' @ profilesLit \<or> p = ''https'' @ profilesLit"
    | "p = ''http'' @ customLit \<or> p = ''https'' @ customLit"
    by (auto simp: recognizedPrefixes_def)
  then show ?thesis
  proof cases
    case 1
    then have "matchRe profilesLit (a @ p @ b)" unfolding matchRe_iff by blast
    then show ?thesis ..
  next
    case 2
    then have "matchRe customLit (a @ p @ b)" unfolding matchRe_iff by blast
    then show ?thesis ..
  qed
qed

text \<open>
  Claim C10. The match is not anchored: whenever a recognized prefix occurs anywhere in
  the input, \<open>resolveURL\<close> cuts out the leftmost match of the profiles expression, then
  the leftmost match of the custom expression in what is left, and then only the first
  \<open>/\<close> of that remainder, wherever it stands; the result has one \<open>/\<close> fewer than the
  remainder, so a remainder with several keeps all but its first.
\<close>

theorem resolveURL_unanchored:
  assumes "x = a @ p @ b" and "p \<in> set recognizedPrefixes"
  shows "\<exists>y z. firstMatchCut profilesLit x y \<and> firstMatchCut customLit y z
           \<and> firstSlashCut z (resolveURL x)
           \<and> count_list (resolveURL x) (CHR ''/'') = count_list z (CHR ''/'') - 1"
proof -
  let ?y = "replaceRe profilesLit x" and ?z = "replaceRe customLit (replaceRe profilesLit x)"
  from assms recognized_matches have "matchRe profilesLit x \<or> matchRe customLit x" by blast
  then have r: "resolveURL x = replaceSlash ?z" by (simp add: resolveURL_def)
  have "firstMatchCut profilesLit x ?y" by (rule replaceRe_firstMatchCut)
  moreover have "firstMatchCut customLit ?y ?z" by (rule replaceRe_firstMatchCut)
  moreover have "firstSlashCut ?z (resolveURL x)"
    unfolding r by (rule replaceSlash_firstSlashCut)
  moreover have "count_list (resolveURL x) (CHR ''/'') = count_list ?z (CHR ''/'') - 1"
    unfolding r by (rule count_replaceSlash)
  ultimately show ?thesis by blast
qed


text \<open>A prefix in the middle of the input, and a remainder with three slashes.\<close>

theorem resolveURL_unanchored_witness:
  "''xxhttp://steamcommunity.com/id/a/b/c'' = ''xx'' @ (''http'' @ customLit) @ ''a/b/c''
   \<and> ''http'' @ customLit \<in> set recognizedPrefixes
   \<and> (\<exists>y z. firstMatchCut profilesLit ''xxhttp://steamcommunity.com/id/a/b/c'' y
           \<and> firstMatchCut customLit y z
           \<and> firstSlashCut z (resolveURL ''xxhttp://steamcommunity.com/id/a/b/c'')
           \<and> count_list (resolveURL ''xxhttp://steamcommunity.com/id/a/b/c'') (CHR ''/'')
               = count_list z (CHR ''/'') - 1)
   \<and> resolveURL ''xxhttp://steamcommunity.com/id/a/b/c'' = ''xxab/c''"
proof -
  have a: "''xxhttp://steamcommunity.com/id/a/b/c'' = ''xx'' @ (''http'' @ customLit) @ ''a/b/c''"
    by (simp add: customLit_def)
  have b: "''http'' @ customLit \<in> set recognizedPrefixes"
    by (simp add: recognizedPrefixes_def)
  have c: "resolveURL ''xxhttp://steamcommunity.com/id/a/b/c'' = ''xxab/c''"
    by (simp add: resolveURL_def matchHere_def startsWith_def profilesLit_def customLit_def)
  show ?thesis
    by (intro conjI; rule a b c resolveURL_unanchored [OF a b])
qed

lemma matchHere_http:
  "lit = profilesLit \<or> lit = customLit \<Longrightarrow> matchHere lit (''http'' @ lit @ r) = Some (4 + length lit)"
  by (auto simp: matchHere_def startsWith_def profilesLit_def customLit_def)

lemma matchHere_https:
  "matchHere lit (''https'' @ lit @ r) = Some (5 + length lit)"
  by (simp add: matchHere_def startsWith_def)

lemma replaceRe_at_head:
  assumes "lit = profilesLit \<or> lit = customLit"
      and "p = ''http'' @ lit \<or> p = ''https'' @ lit"
  shows "replaceRe lit (p @ r) = r"
proof -
  from assms(2) have "matchHere lit (p @ r) = Some (length p)"
    using matchHere_http [OF assms(1), of r] matchHere_https [of lit r] by auto
  moreover from assms(2) obtain c cs where "p = c # cs" by auto
  ultimately have "replaceRe lit (p @ r) = drop (length p) (p @ r)" by simp
  then show ?thesis by simp
qed

lemma few_slashes_no_match:
  assumes "lit = profilesLit \<or> lit = customLit" and "count_list s (CHR ''/'') < 4"
  shows "\<not> matchRe lit s"
proof
  assume "matchRe lit s"
  then obtain a m b where s: "s = a @ m @ b" and m: "m = ''http'' @ lit \<or> m = ''https'' @ lit"
    unfolding matchRe_iff by blast
  from m assms(1) have "count_list m (CHR ''/'') = 4"
    by (auto simp: profilesLit_def customLit_def)
  with s assms(2) show False by simp
qed

lemma custom_prefix_no_profile_match:
  assumes "p = ''http'' @ customLit \<or> p = ''https'' @ customLit"
  shows "replaceRe profilesLit (p @ r) = p @ replaceRe profilesLit r"
  using assms
  by (auto simp: matchHere_def startsWith_def profilesLit_def customLit_def)


lemma resolveURL_profile_shaped:
  assumes "p \<in> set recognizedPrefixes" and "CHR ''/'' \<notin> set tok" and "sl = [] \<or> sl = ''/''"
  shows "resolveURL (p @ tok @ sl) = tok"
proof -
  from assms(2,3) have few: "count_list (tok @ sl) (CHR ''/'') < 4" by auto
  have nm: "\<not> matchRe lit (tok @ sl)" if "lit = profilesLit \<or> lit = customLit" for lit
    using few_slashes_no_match [OF that few] .
  have m: "matchRe profilesLit (p @ tok @ sl) \<or> matchRe customLit (p @ tok @ sl)"
    using recognized_matches [OF assms(1), of "[]" "tok @ sl"] by simp
  have slash: "replaceSlash (tok @ sl) = tok"
    using assms(2,3) replaceSlash_append [of tok "[]"] replaceSlash_none [of tok] by auto
  from assms(1) consider
      (profiles) "p = ''http'' @ profilesLit \<or> p = ''https'' @ profilesLit"
    | (custom) "p = ''http'' @ customLit \<or> p = ''https'' @ customLit"
    by (auto simp: recognizedPrefixes_def)
  then have "replaceRe customLit (replaceRe profilesLit (p @ tok @ sl)) = tok @ sl"
  proof cases
    case profiles
    then have "replaceRe profilesLit (p @ tok @ sl) = tok @ sl"
      by (intro replaceRe_at_head) simp_all
    with nm [of customLit] show ?thesis by (simp add: replaceRe_no_match)
  next
    case custom
    then have "replaceRe profilesLit (p @ tok @ sl) = p @ replaceRe profilesLit (tok @ sl)"
      by (rule custom_prefix_no_profile_match)
    with nm [of profilesLit] have "replaceRe profilesLit (p @ tok @ sl) = p @ tok @ sl"
      by (simp add: replaceRe_no_match)
    moreover from custom have "replaceRe customLit (p @ tok @ sl) = tok @ sl"
      by (intro replaceRe_at_head) simp_all
    ultimately show ?thesis by simp
  qed
  with m slash show ?thesis by (simp add: resolveURL_def)
qed

lemma resolveURL_bare_token: "CHR ''/'' \<notin> set tok \<Longrightarrow> resolveURL tok = tok"
proof -
  assume "CHR ''/'' \<notin> set tok"
  then have "count_list tok (CHR ''/'') < 4" by simp
  then have "\<not> matchRe profilesLit tok" "\<not> matchRe customLit tok"
    by (simp_all add: few_slashes_no_match)
  then show ?thesis by (rule resolveURL_no_match)
qed

text \<open>
  Claim C3 as stated fails: \<open>resolveURL\<close> is not idempotent on every string. Cutting the
  prefix and the first \<open>/\<close> out of the input below leaves a string that begins with a
  recognized prefix again, and a second application cuts that one too.
\<close>

theorem resolveURL_not_idempotent_counterexample:
  "resolveURL ''http://steamcommunity.com/id/http:///steamcommunity.com/id/a''
     = ''http://steamcommunity.com/id/a''
   \<and> resolveURL (resolveURL ''http://steamcommunity.com/id/http:///steamcommunity.com/id/a'') = ''a''"
proof -
  have 1: "resolveURL ''http://steamcommunity.com/id/http:///steamcommunity.com/id/a''
             = ''http://steamcommunity.com/id/a''"
    by (simp add: resolveURL_def matchHere_def startsWith_def profilesLit_def customLit_def)
  have 2: "resolveURL ''http://steamcommunity.com/id/a'' = ''a''"
    by (simp add: resolveURL_def matchHere_def startsWith_def profilesLit_def customLit_def)
  from 1 2 show ?thesis by simp
qed

lemma matchHere_pos: "matchHere lit s = Some n \<Longrightarrow> 0 < n"
  by (auto simp: matchHere_def split: if_splits)

lemma length_replaceRe_le: "length (replaceRe lit s) \<le> length s"
  by (induction s) (auto split: option.splits)

lemma length_replaceRe_less: "matchRe lit s \<Longrightarrow> length (replaceRe lit s) < length s"
proof (induction s)
  case Nil
  then show ?case by simp
next
  case (Cons c cs)
  show ?case
  proof (cases "matchHere lit (c # cs)")
    case None
    with Cons show ?thesis by simp
  next
    case (Some n)
    with matchHere_pos [OF Some] show ?thesis by simp
  qed
qed

lemma length_replaceSlash_le: "length (replaceSlash s) \<le> length s"
  by (induction s) auto

lemma resolveURL_shrinks:
  assumes "matchRe profilesLit y \<or> matchRe customLit y"
  shows "length (resolveURL y) < length y"
proof -
  have "length (replaceRe customLit (replaceRe profilesLit y)) < length y"
  proof (cases "matchRe profilesLit y")
    case True
    then have "length (replaceRe profilesLit y) < length y" by (rule length_replaceRe_less)
    with length_replaceRe_le [of customLit "replaceRe profilesLit y"] show ?thesis by simp
  next
    case False
    with assms have "matchRe customLit y" by simp
    then have "length (replaceRe customLit y) < length y" by (rule length_replaceRe_less)
    with False show ?thesis by (simp add: replaceRe_no_match)
  qed
  with length_replaceSlash_le [of "replaceRe customLit (replaceRe profilesLit y)"] assms
  show ?thesis by (simp add: resolveURL_def)
qed

lemma recognized_iff:
  "(\<exists>a q b. s = a @ q @ b \<and> q \<in> set recognizedPrefixes)
     \<longleftrightarrow> matchRe profilesLit s \<or> matchRe customLit s"
proof
  assume "\<exists>a q b. s = a @ q @ b \<and> q \<in> set recognizedPrefixes"
  then show "matchRe profilesLit s \<or> matchRe customLit s"
    using recognized_matches by blast
next
  assume "matchRe profilesLit s \<or> matchRe customLit s"
  then obtain lit a m b where "lit = profilesLit \<or> lit = customLit" "s = a @ m @ b"
      "m = ''http'' @ lit \<or> m = ''https'' @ lit"
    unfolding matchRe_iff by blast
  moreover from this have "m \<in> set recognizedPrefixes"
    by (auto simp: recognizedPrefixes_def)
  ultimately show "\<exists>a q b. s = a @ q @ b \<and> q \<in> set recognizedPrefixes" by blast
qed

lemma resolveURL_idempotent_iff:
  "resolveURL (resolveURL x) = resolveURL x
     \<longleftrightarrow> \<not> (\<exists>a q b. resolveURL x = a @ q @ b \<and> q \<in> set recognizedPrefixes)"
proof (cases "matchRe profilesLit (resolveURL x) \<or> matchRe customLit (resolveURL x)")
  case True
  from resolveURL_shrinks [OF True] have "resolveURL (resolveURL x) \<noteq> resolveURL x" by auto
  with True show ?thesis unfolding recognized_iff by simp
next
  case False
  then have "resolveURL (resolveURL x) = resolveURL x" by (simp add: resolveURL_no_match)
  with False show ?thesis unfolding recognized_iff by simp
qed

text \<open>
  Claim C3, amended. For an input made of a recognized prefix, a token without \<open>/\<close> and
  an optional trailing \<open>/\<close>, \<open>resolveURL\<close> returns the token, and applying it again
  changes nothing. For an arbitrary input, \<open>resolveURL\<close> is idempotent exactly when its
  result contains no recognized prefix.
\<close>

theorem resolveURL_profile_url:
  assumes "p \<in> set recognizedPrefixes" and "CHR ''/'' \<notin> set tok" and "sl = [] \<or> sl = ''/''"
  shows "resolveURL (p @ tok @ sl) = tok
       \<and> resolveURL (resolveURL (p @ tok @ sl)) = resolveURL (p @ tok @ sl)
       \<and> (resolveURL (resolveURL x) = resolveURL x
            \<longleftrightarrow> \<not> (\<exists>a q b. resolveURL x = a @ q @ b \<and> q \<in> set recognizedPrefixes))"
  using resolveURL_profile_shaped [OF assms] resolveURL_bare_token [OF assms(2)]
        resolveURL_idempotent_iff [of x]
  by simp

text \<open>Scenario B's input.\<close>

theorem resolveURL_profile_url_witness:
  "''https'' @ profilesLit \<in> set recognizedPrefixes
   \<and> CHR ''/'' \<notin> set ''76561197960287930''
   \<and> resolveURL ''https://steamcommunity.com/profiles/76561197960287930/'' = ''76561197960287930''
   \<and> resolveURL (resolveURL ''https://steamcommunity.com/profiles/76561197960287930/'')
       = resolveURL ''https://steamcommunity.com/profiles/76561197960287930/''
   \<and> \<not> (\<exists>a q b. resolveURL ''https://steamcommunity.com/profiles/76561197960287930/'' = a @ q @ b
                 \<and> q \<in> set recognizedPrefixes)"
proof -
  have a: "''https'' @ profilesLit \<in> set recognizedPrefixes"
    by (simp add: recognizedPrefixes_def)
  have b: "CHR ''/'' \<notin> set ''76561197960287930''" by simp
  have c: "''/'' = [] \<or> ''/'' = ''/''" by simp
  have e: "(''https'' @ profilesLit) @ ''76561197960287930'' @ ''/''
             = ''https://steamcommunity.com/profiles/76561197960287930/''"
    by (simp add: profilesLit_def)
  note t = resolveURL_profile_url
             [OF a b c, of "''https://steamcommunity.com/profiles/76561197960287930/''", unfolded e]
  from t have n: "\<not> (\<exists>a q b. resolveURL ''https://steamcommunity.com/profiles/76561197960287930/''
                          = a @ q @ b \<and> q \<in> set recognizedPrefixes)"
    by blast
  show ?thesis
    by (intro conjI; rule a b n t [THEN conjunct1] t [THEN conjunct2, THEN conjunct1])
qed

end
